theory Spec2Isabelle
  imports Complex_Main
begin

section \<open>Selection state and the timeline's zoom transform\<close>

text \<open>
  \<^verbatim>\<open>App.tsx\<close>: the component \<^verbatim>\<open>Layout\<close> holds three pieces of React state,
  initialised to \<^verbatim>\<open>'USA'\<close>, \<^verbatim>\<open>'United States'\<close> and \<^verbatim>\<open>null\<close>.
\<close>

record Layout =
  selectedCountryCode :: string
  selectedCountryName :: string
  selectedDiscipline :: "string option"

definition initialLayout :: Layout where
  "initialLayout =
     \<lparr>selectedCountryCode = ''USA'', selectedCountryName = ''United States'',
      selectedDiscipline = None\<rparr>"

text \<open>
  \<^verbatim>\<open>handleSelectCountry\<close> calls the three state setters; \<^verbatim>\<open>onSelectDiscipline\<close> is
  wired to the setter \<^verbatim>\<open>setSelectedDiscipline\<close> itself.
\<close>

definition handleSelectCountry :: "string \<Rightarrow> string \<Rightarrow> Layout \<Rightarrow> Layout" where
  "handleSelectCountry code name s =
     s\<lparr>selectedCountryCode := code, selectedCountryName := name, selectedDiscipline := None\<rparr>"

definition setSelectedDiscipline :: "string option \<Rightarrow> Layout \<Rightarrow> Layout" where
  "setSelectedDiscipline d s = s\<lparr>selectedDiscipline := d\<rparr>"

text \<open>
  The timeline component keeps a \<^verbatim>\<open>d3.ZoomTransform\<close> (fields \<^verbatim>\<open>k\<close>, \<^verbatim>\<open>x\<close>, \<^verbatim>\<open>y\<close>, here with the prefix \<open>zoom_\<close>) in
  its own state, initialised to \<^verbatim>\<open>d3.zoomIdentity\<close>.
\<close>

record ZoomTransform =
  zoom_k :: real
  zoom_x :: real
  zoom_y :: real

definition zoomIdentity :: ZoomTransform where
  "zoomIdentity = \<lparr>zoom_k = 1, zoom_x = 0, zoom_y = 0\<rparr>"

text \<open>
  The effect \<^verbatim>\<open>useEffect(() => setZoomTransform(d3.zoomIdentity), [selectedCountryCode,
  selectedDiscipline])\<close> runs after a render in which one of the two dependencies differs
  from its value at the previous render; otherwise the stored transform is kept.
\<close>

definition zoomResetEffect :: "Layout \<Rightarrow> Layout \<Rightarrow> ZoomTransform \<Rightarrow> ZoomTransform" where
  "zoomResetEffect prev cur z =
     (if selectedCountryCode cur \<noteq> selectedCountryCode prev
         \<or> selectedDiscipline cur \<noteq> selectedDiscipline prev
      then zoomIdentity else z)"

record Dashboard =
  layout :: Layout
  zoomTransform :: ZoomTransform

definition initialDashboard :: Dashboard where
  "initialDashboard = \<lparr>layout = initialLayout, zoomTransform = zoomIdentity\<rparr>"

text \<open>A state update of \<^verbatim>\<open>Layout\<close> followed by the re-render and its effects.\<close>

definition rerender :: "(Layout \<Rightarrow> Layout) \<Rightarrow> Dashboard \<Rightarrow> Dashboard" where
  "rerender upd s =
     \<lparr>layout = upd (layout s),
      zoomTransform = zoomResetEffect (layout s) (upd (layout s)) (zoomTransform s)\<rparr>"

definition selectCountry :: "string \<Rightarrow> string \<Rightarrow> Dashboard \<Rightarrow> Dashboard" where
  "selectCountry code name = rerender (handleSelectCountry code name)"

definition selectDiscipline :: "string option \<Rightarrow> Dashboard \<Rightarrow> Dashboard" where
  "selectDiscipline d = rerender (setSelectedDiscipline d)"

text \<open>
  A zoom or pan gesture: the handler of the \<^verbatim>\<open>zoom\<close> event stores
  \<^verbatim>\<open>event.transform\<close>. The behaviour is built with \<^verbatim>\<open>scaleExtent([1, 32])\<close>.
\<close>

definition zoomGesture :: "ZoomTransform \<Rightarrow> Dashboard \<Rightarrow> Dashboard" where
  "zoomGesture t s = s\<lparr>zoomTransform := t\<rparr>"

inductive reachable :: "Dashboard \<Rightarrow> bool" where
  r_init: "reachable initialDashboard"
| r_country: "reachable s \<Longrightarrow> reachable (selectCountry code name s)"
| r_discipline: "reachable s \<Longrightarrow> reachable (selectDiscipline d s)"
| r_zoom: "reachable s \<Longrightarrow> 1 \<le> zoom_k t \<Longrightarrow> zoom_k t \<le> 32 \<Longrightarrow> reachable (zoomGesture t s)"

definition zoomed :: Dashboard where
  "zoomed = zoomGesture \<lparr>zoom_k = 2, zoom_x = 0, zoom_y = 0\<rparr> initialDashboard"


section \<open>Library functions used by the views\<close>

text \<open>
  \<^verbatim>\<open>d3.rollups(values, reduce, key)\<close>: the values are put into an insertion-ordered map
  from key to the array of values with that key (a value of a known key is pushed to its
  group, a new key opens a group at the end), then each group is reduced.
\<close>

fun group_push :: "'k \<Rightarrow> 'a \<Rightarrow> ('k \<times> 'a list) list \<Rightarrow> ('k \<times> 'a list) list" where
  "group_push key v [] = [(key, [v])]"
| "group_push key v ((key', vs) # groups) =
     (if key' = key then (key', vs @ [v]) # groups
      else (key', vs) # group_push key v groups)"

definition group_by :: "('a \<Rightarrow> 'k) \<Rightarrow> 'a list \<Rightarrow> ('k \<times> 'a list) list" where
  "group_by keyof values = foldl (\<lambda>groups v. group_push (keyof v) v groups) [] values"

definition rollups :: "'a list \<Rightarrow> ('a list \<Rightarrow> 'b) \<Rightarrow> ('a \<Rightarrow> 'k) \<Rightarrow> ('k \<times> 'b) list" where
  "rollups values reduce keyof = map (\<lambda>(key, vs). (key, reduce vs)) (group_by keyof values)"

text \<open>
  \<^verbatim>\<open>Array.prototype.sort(compare)\<close> is stable. For a comparator that orders by a key the
  result is the one stable sorted permutation, which insertion from the right computes: an
  element goes in front of the first later element that does not compare below it.
\<close>

fun js_insert :: "('a \<Rightarrow> 'a \<Rightarrow> int) \<Rightarrow> 'a \<Rightarrow> 'a list \<Rightarrow> 'a list" where
  "js_insert compare a [] = [a]"
| "js_insert compare a (b # bs) =
     (if compare a b \<le> 0 then a # b # bs else b # js_insert compare a bs)"

definition js_sort :: "('a \<Rightarrow> 'a \<Rightarrow> int) \<Rightarrow> 'a list \<Rightarrow> 'a list" where
  "js_sort compare xs = foldr (js_insert compare) xs []"

text \<open>
  A JavaScript number as the loaders' unary \<^verbatim>\<open>+\<close> gives it for a column of counts: the
  integer the text denotes, or \<^verbatim>\<open>NaN\<close> for text that denotes no number.
\<close>

datatype number = NaN | Num int

text \<open>
  \<^verbatim>\<open>d3.min(values, valueof)\<close> and \<^verbatim>\<open>d3.max\<close>: one pass keeping the least (greatest)
  value seen. A \<^verbatim>\<open>NaN\<close> value is skipped (the tests \<^verbatim>\<open>min > value\<close> and
  \<^verbatim>\<open>value >= value\<close> both fail for it); the result is \<^verbatim>\<open>undefined\<close> when every value
  was skipped. No value is \<^verbatim>\<open>null\<close> here.
\<close>

definition d3_min :: "'a list \<Rightarrow> ('a \<Rightarrow> number) \<Rightarrow> int option" where
  "d3_min values valueof =
     foldl (\<lambda>m v. case valueof v of
                     NaN \<Rightarrow> m
                   | Num n \<Rightarrow> (case m of None \<Rightarrow> Some n
                              | Some least \<Rightarrow> if n < least then Some n else m))
       None values"

definition d3_max :: "'a list \<Rightarrow> ('a \<Rightarrow> number) \<Rightarrow> int option" where
  "d3_max values valueof =
     foldl (\<lambda>m v. case valueof v of
                     NaN \<Rightarrow> m
                   | Num n \<Rightarrow> (case m of None \<Rightarrow> Some n
                              | Some greatest \<Rightarrow> if greatest < n then Some n else m))
       None values"

text \<open>The idiom \<^verbatim>\<open>v || 0\<close> on a number: \<^verbatim>\<open>NaN\<close> and 0 are falsy.\<close>

definition orZero :: "number \<Rightarrow> int" where
  "orZero v = (case v of NaN \<Rightarrow> 0 | Num n \<Rightarrow> n)"

text \<open>The nullish coalescing \<^verbatim>\<open>v ?? dflt\<close> and the idiom \<^verbatim>\<open>v || ''\<close> on a CSV field.\<close>

definition nullish :: "'a option \<Rightarrow> 'a \<Rightarrow> 'a" where
  "nullish v dflt = (case v of None \<Rightarrow> dflt | Some a \<Rightarrow> a)"

definition orEmpty :: "string option \<Rightarrow> string" where
  "orEmpty v = (case v of None \<Rightarrow> [] | Some s \<Rightarrow> s)"

text \<open>Truthiness of a \<^verbatim>\<open>string | null\<close>: \<^verbatim>\<open>null\<close> and the empty string are falsy.\<close>

definition truthy :: "string option \<Rightarrow> bool" where
  "truthy v = (case v of None \<Rightarrow> False | Some s \<Rightarrow> s \<noteq> [])"

text \<open>A row of \<^verbatim>\<open>d3.csv\<close>: column name to text, a missing column being \<^verbatim>\<open>undefined\<close>.\<close>

type_synonym DSVRow = "string \<rightharpoonup> string"

record ComponentSize =
  width :: nat
  height :: nat

text \<open>
  \<^verbatim>\<open>d3.bisector(f).left(a, x)\<close> with \<open>lo = 0\<close> and \<open>hi = a.length\<close>: the loop halves
  the interval, moving \<open>lo\<close> past \<open>mid\<close> when the value at \<open>mid\<close> is below \<open>x\<close>.
\<close>

function bisect_left :: "'a list \<Rightarrow> ('a \<Rightarrow> int) \<Rightarrow> int \<Rightarrow> nat \<Rightarrow> nat \<Rightarrow> nat" where
  "bisect_left a f x lo hi =
     (if lo < hi
      then (if f (a ! ((lo + hi) div 2)) < x
            then bisect_left a f x ((lo + hi) div 2 + 1) hi
            else bisect_left a f x lo ((lo + hi) div 2))
      else lo)"
  by pat_completeness auto
termination
  by (relation "measure (\<lambda>(a, f, x, lo, hi). hi - lo)") auto

declare bisect_left.simps [simp del]

subsection \<open>The date parser \<^verbatim>\<open>d3.timeParse('%Y-%m-%d')\<close>\<close>

text \<open>
  A \<^verbatim>\<open>Date\<close> is its \<^verbatim>\<open>getTime()\<close>, milliseconds since the epoch. The parser reads each
  numeric directive with the regular expression \<^verbatim>\<open>/^\s*\d+/\<close> on a window of the input (four
  characters for \<^verbatim>\<open>%Y\<close>, two for \<^verbatim>\<open>%m\<close> and \<^verbatim>\<open>%d\<close>), wants the literal \<^verbatim>\<open>-\<close>
  between them and the whole input consumed, and hands year, zero-based month and day to
  \<^verbatim>\<open>new Date(y, m, d)\<close>, which carries months and days out of range over (ECMAScript
  \<^verbatim>\<open>MakeDay\<close>). A year below 100 goes through \<^verbatim>\<open>new Date(-1, m, d)\<close> and
  \<^verbatim>\<open>setFullYear(y)\<close>. The local time zone is taken to be UTC.
\<close>

type_synonym Date = int

text \<open>
  A \<open>char\<close> stands for a UTF-16 code unit below 256. The class \<^verbatim>\<open>\s\<close> has seven code
  units in that range: tab, line feed, vertical tab, form feed, carriage return, space and
  the no-break space U+00A0; its other members (U+1680, U+2000 to U+200A, U+2028, U+2029,
  U+202F, U+205F, U+3000, U+FEFF) are code units the type does not have.
\<close>

definition isSpace :: "char \<Rightarrow> bool" where
  "isSpace c =
     (c \<in> set [CHR 0x09, CHR 0x0A, CHR 0x0B, CHR 0x0C, CHR 0x0D, CHR 0x20, CHR 0xA0])"

definition isDigit :: "char \<Rightarrow> bool" where
  "isDigit c = (c \<in> set ''0123456789'')"

definition digitsValue :: "string \<Rightarrow> int" where
  "digitsValue ds = foldl (\<lambda>n c. 10 * n + (int (of_char c) - 48)) 0 ds"

definition numberRe :: "string \<Rightarrow> (int \<times> nat) option" where
  "numberRe w =
     (let ds = takeWhile isDigit (dropWhile isSpace w)
      in if ds = [] then None
         else Some (digitsValue ds, length (takeWhile isSpace w) + length ds))"

definition parseNumber :: "nat \<Rightarrow> string \<Rightarrow> nat \<Rightarrow> (int \<times> nat) option" where
  "parseNumber w string i =
     (case numberRe (take w (drop i string)) of
        None \<Rightarrow> None
      | Some (n, len) \<Rightarrow> Some (n, i + len))"

definition literalAt :: "char \<Rightarrow> string \<Rightarrow> nat \<Rightarrow> bool" where
  "literalAt c string i = (i < length string \<and> string ! i = c)"

text \<open>Days from the epoch of the first day of a month (1 to 12) of a year, and back.\<close>

definition daysFromCivil :: "int \<Rightarrow> int \<Rightarrow> int \<Rightarrow> int" where
  "daysFromCivil yr mo dy =
     (let y' = (if mo \<le> 2 then yr - 1 else yr);
          era = y' div 400;
          yoe = y' - era * 400;
          doy = (153 * (if mo > 2 then mo - 3 else mo + 9) + 2) div 5 + dy - 1;
          doe = yoe * 365 + yoe div 4 - yoe div 100 + doy
      in era * 146097 + doe - 719468)"

definition civilFromDays :: "int \<Rightarrow> int \<times> int \<times> int" where
  "civilFromDays z =
     (let z' = z + 719468;
          era = z' div 146097;
          doe = z' - era * 146097;
          yoe = (doe - doe div 1460 + doe div 36524 - doe div 146096) div 365;
          doy = doe - (365 * yoe + yoe div 4 - yoe div 100);
          mp = (5 * doy + 2) div 153;
          dy = doy - (153 * mp + 2) div 5 + 1;
          mo = (if mp < 10 then mp + 3 else mp - 9)
      in (yoe + era * 400 + (if mo \<le> 2 then 1 else 0), mo, dy))"

definition makeDay :: "int \<Rightarrow> int \<Rightarrow> int \<Rightarrow> int" where
  "makeDay yr month dt = daysFromCivil (yr + month div 12) (month mod 12 + 1) 1 + dt - 1"

definition localDate :: "int \<Rightarrow> int \<Rightarrow> int \<Rightarrow> Date" where
  "localDate yr month dt =
     86400000 *
       (if 0 \<le> yr \<and> yr < 100
        then (case civilFromDays (makeDay (- 1) month dt) of
                (_, mo, dy) \<Rightarrow> makeDay yr (mo - 1) dy)
        else makeDay yr month dt)"

definition timeParse_Ymd :: "string \<Rightarrow> Date option" where
  "timeParse_Ymd string =
     (case parseNumber 4 string 0 of
        None \<Rightarrow> None
      | Some (yr, i) \<Rightarrow>
          if \<not> literalAt CHR ''-'' string i then None
          else (case parseNumber 2 string (i + 1) of
                  None \<Rightarrow> None
                | Some (mo, j) \<Rightarrow>
                    if \<not> literalAt CHR ''-'' string j then None
                    else (case parseNumber 2 string (j + 1) of
                            None \<Rightarrow> None
                          | Some (dy, n) \<Rightarrow>
                              if n \<noteq> length string then None
                              else Some (localDate yr (mo - 1) dy))))"

section \<open>The views\<close>

text \<open>
  What a render effect leaves in its \<^verbatim>\<open>svg\<close>: nothing new when it returns at a guard
  before clearing the element, the message of the empty state, or the chart's data. The
  title line, the axes and the legend are drawn from the same data and are not modelled.
\<close>

datatype 'a Svg = Untouched | Message string | Chart 'a

subsection \<open>Detail view: \<^verbatim>\<open>DisciplineHeatmap\<close>\<close>

record MedalRow =
  medal_type :: string
  discipline :: string
  country_code :: string

record HeatmapCell =
  cell_discipline :: string
  medalType :: string
  cell_count :: nat

definition medalTypes :: "string list" where
  "medalTypes = [''Gold Medal'', ''Silver Medal'', ''Bronze Medal'']"

definition heatmapRow :: "DSVRow \<Rightarrow> MedalRow" where
  "heatmapRow d =
     \<lparr>medal_type = orEmpty (d ''medal_type''), discipline = orEmpty (d ''discipline''),
      country_code = orEmpty (d ''country_code'')\<rparr>"

definition loadHeatmap :: "DSVRow list \<Rightarrow> MedalRow list" where
  "loadHeatmap rows =
     filter (\<lambda>d. discipline d \<noteq> [] \<and> country_code d \<noteq> []) (map heatmapRow rows)"

definition filtered :: "'a MedalRow_scheme list \<Rightarrow> string \<Rightarrow> 'a MedalRow_scheme list" where
  "filtered data selectedCode = filter (\<lambda>d. country_code d = selectedCode) data"

definition byDiscipline :: "MedalRow list \<Rightarrow> string \<Rightarrow> (string \<times> nat) list" where
  "byDiscipline data selectedCode = rollups (filtered data selectedCode) length discipline"

definition ranked :: "MedalRow list \<Rightarrow> string \<Rightarrow> (string \<times> nat) list" where
  "ranked data selectedCode =
     js_sort (\<lambda>a b. int (snd b) - int (snd a)) (byDiscipline data selectedCode)"

definition topDisciplines :: "MedalRow list \<Rightarrow> string \<Rightarrow> string list" where
  "topDisciplines data selectedCode = map fst (take 12 (ranked data selectedCode))"

definition cells :: "MedalRow list \<Rightarrow> string \<Rightarrow> HeatmapCell list" where
  "cells data selectedCode =
     concat (map (\<lambda>disc. map (\<lambda>mt.
         \<lparr>cell_discipline = disc, medalType = mt,
          cell_count = length (filter (\<lambda>d. discipline d = disc \<and> medal_type d = mt)
                                 (filtered data selectedCode))\<rparr>) medalTypes)
       (topDisciplines data selectedCode))"

definition renderHeatmap :: "MedalRow list \<Rightarrow> ComponentSize \<Rightarrow> string \<Rightarrow> HeatmapCell list Svg" where
  "renderHeatmap data sz selectedCode =
     (if data = [] then Untouched
      else if width sz = 0 \<or> height sz = 0 then Untouched
      else if cells data selectedCode = []
      then Message ''No discipline-level medals recorded for this country.''
      else Chart (cells data selectedCode))"

subsection \<open>Timeline view: \<^verbatim>\<open>MedalTimeline\<close> with discipline filter and zoom\<close>

text \<open>The timeline's row has the heatmap row's three fields and \<^verbatim>\<open>medal_date\<close>.\<close>

record MedalRow_timeline = MedalRow +
  medal_date :: string

record MedalByDate =
  date :: Date
  gold :: nat
  silver :: nat
  bronze :: nat
  total :: nat

definition timelineRow :: "DSVRow \<Rightarrow> MedalRow_timeline" where
  "timelineRow d =
     \<lparr>medal_type = orEmpty (d ''medal_type''), discipline = orEmpty (d ''discipline''),
      country_code = orEmpty (d ''country_code''), medal_date = orEmpty (d ''medal_date'')\<rparr>"

definition loadTimeline :: "DSVRow list \<Rightarrow> MedalRow_timeline list" where
  "loadTimeline rows =
     filter (\<lambda>d. medal_date d \<noteq> [] \<and> country_code d \<noteq> []) (map timelineRow rows)"

definition timelineFiltered ::
  "MedalRow_timeline list \<Rightarrow> string \<Rightarrow> string option \<Rightarrow> MedalRow_timeline list" where
  "timelineFiltered data selectedCode selectedDisc =
     (if truthy selectedDisc
      then filter (\<lambda>d. Some (discipline d) = selectedDisc) (filtered data selectedCode)
      else filtered data selectedCode)"

definition medalCounts :: "MedalRow_timeline list \<Rightarrow> nat \<times> nat \<times> nat" where
  "medalCounts v =
     (length (filter (\<lambda>d. medal_type d = ''Gold Medal'') v),
      length (filter (\<lambda>d. medal_type d = ''Silver Medal'') v),
      length (filter (\<lambda>d. medal_type d = ''Bronze Medal'') v))"

definition grouped ::
  "MedalRow_timeline list \<Rightarrow> string \<Rightarrow> string option \<Rightarrow> (string \<times> nat \<times> nat \<times> nat) list" where
  "grouped data selectedCode selectedDisc =
     rollups (timelineFiltered data selectedCode selectedDisc) medalCounts medal_date"

definition toMedalByDate ::
  "(string \<Rightarrow> Date option) \<Rightarrow> string \<times> nat \<times> nat \<times> nat \<Rightarrow> MedalByDate option" where
  "toMedalByDate parseDate g =
     (case g of (dateString, gld, slv, brz) \<Rightarrow>
        (case parseDate dateString of
           None \<Rightarrow> None
         | Some parsed \<Rightarrow>
             Some \<lparr>date = parsed, gold = gld, silver = slv, bronze = brz,
                   total = gld + slv + brz\<rparr>))"

text \<open>
  \<^verbatim>\<open>seriesData\<close>: the parser is the closure \<^verbatim>\<open>parseDate\<close> of the effect, an argument
  here; the dashboard passes \<^const>\<open>timeParse_Ymd\<close>.
\<close>

definition seriesData ::
  "(string \<Rightarrow> Date option) \<Rightarrow> MedalRow_timeline list \<Rightarrow> string \<Rightarrow> string option
     \<Rightarrow> MedalByDate list" where
  "seriesData parseDate data selectedCode selectedDisc =
     js_sort (\<lambda>a b. date a - date b)
       (List.map_filter (toMedalByDate parseDate) (grouped data selectedCode selectedDisc))"

definition renderTimeline ::
  "(string \<Rightarrow> Date option) \<Rightarrow> MedalRow_timeline list \<Rightarrow> ComponentSize \<Rightarrow> string
     \<Rightarrow> string option \<Rightarrow> MedalByDate list Svg" where
  "renderTimeline parseDate data sz selectedCode selectedDisc =
     (if data = [] then Untouched
      else if width sz = 0 \<or> height sz = 0 then Untouched
      else if seriesData parseDate data selectedCode selectedDisc = []
      then Message (if truthy selectedDisc then ''No medals in this discipline.''
                    else ''No medals recorded for this country.'')
      else Chart (seriesData parseDate data selectedCode selectedDisc))"

text \<open>
  The \<^verbatim>\<open>mousemove\<close> handler: \<open>pointer\<close> is \<^verbatim>\<open>xScale.invert(x)\<close>, the date under the
  pointer; the entry read out is \<^verbatim>\<open>seriesData[i]\<close>, nothing when that is \<^verbatim>\<open>undefined\<close>.
\<close>

definition hoverPoint :: "MedalByDate list \<Rightarrow> Date \<Rightarrow> MedalByDate option" where
  "hoverPoint series pointer =
     (let i = min (int (bisect_left series date pointer 0 (length series)))
                  (int (length series) - 1)
      in if 0 \<le> i \<and> i < int (length series) then Some (series ! nat i) else None)"

subsection \<open>Overview: \<^verbatim>\<open>CountryTreemap\<close>\<close>

text \<open>
  A row of the country-totals table as the loader builds it: the four counts are
  \<^verbatim>\<open>+(d[column] || 0)\<close>, so each is a number that may be \<^verbatim>\<open>NaN\<close>. The fields carry the
  prefix \<open>row_\<close>, the timeline's entries having fields of the same names. The leaves of
  the treemap are the rows sorted by descending value, the value of a leaf being
  \<^verbatim>\<open>+d.total || 0\<close>; a leaf's stroke is dark when its country is the selected one.
\<close>

record MedalTotalRow =
  row_country_code :: string
  row_country :: string
  row_gold :: number
  row_silver :: number
  row_bronze :: number
  row_total :: number

definition overviewColorDomain :: "MedalTotalRow list \<Rightarrow> int \<times> int" where
  "overviewColorDomain data =
     (nullish (d3_min data row_total) 0, nullish (d3_max data row_total) 1)"

record Treemap =
  colorDomain :: "int \<times> int"
  leaves :: "MedalTotalRow list"
  strokes :: "bool list"

definition renderTreemap :: "MedalTotalRow list \<Rightarrow> ComponentSize \<Rightarrow> string \<Rightarrow> Treemap Svg" where
  "renderTreemap data sz selectedCode =
     (if data = [] then Untouched
      else if width sz = 0 \<or> height sz = 0 then Untouched
      else Chart
        \<lparr>colorDomain = overviewColorDomain data,
         leaves = js_sort (\<lambda>a b. orZero (row_total b) - orZero (row_total a)) data,
         strokes = map (\<lambda>d. row_country_code d = selectedCode)
                     (js_sort (\<lambda>a b. orZero (row_total b) - orZero (row_total a)) data)\<rparr>)"

text \<open>\<^verbatim>\<open>Layout\<close> passes its \<^verbatim>\<open>selectedCountryCode\<close> to the treemap, and nothing else of the selection.\<close>

definition overview :: "MedalTotalRow list \<Rightarrow> ComponentSize \<Rightarrow> Layout \<Rightarrow> Treemap Svg" where
  "overview data sz s = renderTreemap data sz (selectedCountryCode s)"

section \<open>Notions used to state the properties\<close>

text \<open>The distinct elements of a list in the order of their first occurrence.\<close>

definition first_seen :: "'a list \<Rightarrow> 'a list" where
  "first_seen xs = rev (remdups (rev xs))"

text \<open>
  The disciplines of the rows of \<open>data\<close> with the given country code, in first-encounter
  order, each with the number of rows of \<open>data\<close> of that country and discipline.
\<close>

definition disciplineCounts :: "MedalRow list \<Rightarrow> string \<Rightarrow> (string \<times> nat) list" where
  "disciplineCounts data code =
     map (\<lambda>disc. (disc, length [d \<leftarrow> data. country_code d = code \<and> discipline d = disc]))
       (first_seen (map discipline [d \<leftarrow> data. country_code d = code]))"

text \<open>
  The scenario of the specification: two Swimming medals and one Athletics medal of the
  USA, as rows of the heatmap and as a country-totals table of two countries.
\<close>

definition exampleMedals :: "MedalRow list" where
  "exampleMedals =
     [\<lparr>medal_type = ''Gold Medal'', discipline = ''Swimming'', country_code = ''USA''\<rparr>,
      \<lparr>medal_type = ''Silver Medal'', discipline = ''Swimming'', country_code = ''USA''\<rparr>,
      \<lparr>medal_type = ''Gold Medal'', discipline = ''Athletics'', country_code = ''USA''\<rparr>]"

text \<open>
  The example rows followed by three Judo medals of France and a Fencing row of the USA
  whose medal type is none of the three.
\<close>

definition mixedMedals :: "MedalRow list" where
  "mixedMedals =
     exampleMedals @
     [\<lparr>medal_type = ''Gold Medal'', discipline = ''Judo'', country_code = ''FRA''\<rparr>,
      \<lparr>medal_type = ''Silver Medal'', discipline = ''Judo'', country_code = ''FRA''\<rparr>,
      \<lparr>medal_type = ''Bronze Medal'', discipline = ''Judo'', country_code = ''FRA''\<rparr>,
      \<lparr>medal_type = ''Medal'', discipline = ''Fencing'', country_code = ''USA''\<rparr>]"

definition exampleTotals :: "MedalTotalRow list" where
  "exampleTotals =
     [\<lparr>row_country_code = ''USA'', row_country = ''United States'', row_gold = Num 40,
       row_silver = Num 44, row_bronze = Num 42, row_total = Num 126\<rparr>,
      \<lparr>row_country_code = ''FRA'', row_country = ''France'', row_gold = Num 16,
       row_silver = Num 26, row_bronze = Num 22, row_total = Num 64\<rparr>]"

text \<open>A table whose only row has text that is no number in its count columns.\<close>

definition unreadableTotals :: "MedalTotalRow list" where
  "unreadableTotals =
     [\<lparr>row_country_code = ''USA'', row_country = ''United States'', row_gold = NaN,
       row_silver = NaN, row_bronze = NaN, row_total = NaN\<rparr>]"

text \<open>The totals that are numbers, in the order of the rows.\<close>

definition numericTotals :: "MedalTotalRow list \<Rightarrow> int list" where
  "numericTotals data =
     List.map_filter (\<lambda>d. case row_total d of NaN \<Rightarrow> None | Num n \<Rightarrow> Some n) data"

definition exampleSize :: ComponentSize where
  "exampleSize = \<lparr>width = 800, height = 400\<rparr>"

text \<open>A CSV row with the four columns of the medal-events table.\<close>

definition csvRow :: "string \<Rightarrow> string \<Rightarrow> string \<Rightarrow> string \<Rightarrow> DSVRow" where
  "csvRow mt md cc disc =
     [''medal_type'' \<mapsto> mt, ''medal_date'' \<mapsto> md, ''country_code'' \<mapsto> cc,
      ''discipline'' \<mapsto> disc]"

text \<open>
  The number of rows of a date string and medal type, and the timeline entry of a date
  string that parses to \<open>t\<close>.
\<close>

definition dateCount :: "MedalRow_timeline list \<Rightarrow> string \<Rightarrow> string \<Rightarrow> nat" where
  "dateCount rows dateString mt =
     length (filter (\<lambda>d. medal_date d = dateString \<and> medal_type d = mt) rows)"

definition dateEntry :: "MedalRow_timeline list \<Rightarrow> string \<Rightarrow> Date \<Rightarrow> MedalByDate" where
  "dateEntry rows dateString t =
     \<lparr>date = t,
      gold = dateCount rows dateString ''Gold Medal'',
      silver = dateCount rows dateString ''Silver Medal'',
      bronze = dateCount rows dateString ''Bronze Medal'',
      total = dateCount rows dateString ''Gold Medal''
            + dateCount rows dateString ''Silver Medal''
            + dateCount rows dateString ''Bronze Medal''\<rparr>"

text \<open>
  The scenario's rows for the timeline, and two rows whose date strings differ and parse to
  the same day.
\<close>

definition exampleRows :: "MedalRow_timeline list" where
  "exampleRows =
     [\<lparr>medal_type = ''Gold Medal'', discipline = ''Swimming'', country_code = ''USA'',
       medal_date = ''2024-07-28''\<rparr>,
      \<lparr>medal_type = ''Silver Medal'', discipline = ''Swimming'', country_code = ''USA'',
       medal_date = ''2024-07-28''\<rparr>,
      \<lparr>medal_type = ''Gold Medal'', discipline = ''Athletics'', country_code = ''USA'',
       medal_date = ''2024-07-29''\<rparr>]"

definition looseRows :: "MedalRow_timeline list" where
  "looseRows =
     [\<lparr>medal_type = ''Gold Medal'', discipline = ''Swimming'', country_code = ''USA'',
       medal_date = ''2024-07-28''\<rparr>,
      \<lparr>medal_type = ''Silver Medal'', discipline = ''Swimming'', country_code = ''USA'',
       medal_date = ''2024-7-28''\<rparr>]"


text \<open>One entry per distinct date string that parses, in first-encounter order.\<close>

definition parsedEntries ::
  "(string \<Rightarrow> Date option) \<Rightarrow> MedalRow_timeline list \<Rightarrow> MedalByDate list" where
  "parsedEntries pd rows =
     map (\<lambda>s. dateEntry rows s (the (pd s)))
       (filter (\<lambda>s. pd s \<noteq> None) (first_seen (map medal_date rows)))"

text \<open>A sorted series of two consecutive days, for the hover readout.\<close>

definition augustSeries :: "MedalByDate list" where
  "augustSeries =
     [\<lparr>date = 1722124800000, gold = 1, silver = 1, bronze = 0, total = 2\<rparr>,
      \<lparr>date = 1722211200000, gold = 1, silver = 0, bronze = 0, total = 1\<rparr>]"

section \<open>Properties of the selection state\<close>

lemma reachable_zoomed: "reachable zoomed"
  unfolding zoomed_def by (rule r_zoom [OF r_init]) simp_all

lemmas selection_defs =
  selectCountry_def selectDiscipline_def rerender_def handleSelectCountry_def
  setSelectedDiscipline_def zoomResetEffect_def

lemmas zoomed_defs =
  zoomed_def zoomGesture_def initialDashboard_def initialLayout_def

text \<open>
  C1 (amended). In every reachable state, \<open>selectCountry code name\<close> sets the country
  code and name to the given values and the discipline to null. The zoom transform is
  reset to the identity when the code differs from the one selected before or a discipline
  was selected before; when the same country is selected again with no discipline
  selected, no dependency of the reset effect changes and the transform is kept.
\<close>

theorem selectCountry_effect:
  "reachable s \<Longrightarrow>
     selectedCountryCode (layout (selectCountry code name s)) = code
   \<and> selectedCountryName (layout (selectCountry code name s)) = name
   \<and> selectedDiscipline (layout (selectCountry code name s)) = None
   \<and> zoomTransform (selectCountry code name s) =
       (if code \<noteq> selectedCountryCode (layout s) \<or> selectedDiscipline (layout s) \<noteq> None
        then zoomIdentity else zoomTransform s)"
  by (auto simp: selection_defs)

theorem selectCountry_effect_witness:
  "reachable (selectDiscipline (Some ''Judo'') zoomed)
   \<and> selectedCountryCode (layout (selectCountry ''USA'' ''United States''
        (selectDiscipline (Some ''Judo'') zoomed))) = ''USA''
   \<and> selectedDiscipline (layout (selectCountry ''USA'' ''United States''
        (selectDiscipline (Some ''Judo'') zoomed))) = None
   \<and> zoomTransform (selectCountry ''USA'' ''United States''
        (selectDiscipline (Some ''Judo'') zoomed)) = zoomIdentity"
  using selectCountry_effect [where s = "selectDiscipline (Some ''Judo'') zoomed"
      and code = "''USA''" and name = "''United States''"]
    r_discipline [OF reachable_zoomed, of "Some ''Judo''"]
  by (simp add: selection_defs zoomed_defs)

text \<open>
  C1 as stated fails: after a zoom gesture in the initial state, selecting the country
  that is already selected leaves the transform at scale 2.
\<close>

theorem selectCountry_same_country_counterexample:
  "reachable zoomed
   \<and> zoomTransform (selectCountry ''USA'' ''United States'' zoomed) \<noteq> zoomIdentity"
  using reachable_zoomed
  by (simp add: selection_defs zoomed_defs zoomIdentity_def)

text \<open>
  C2 (amended). In every reachable state, \<open>selectDiscipline d\<close> keeps the zoom transform
  when \<open>d\<close> is the discipline already selected, and resets it to the identity when \<open>d\<close>
  differs from it: the discipline is a dependency of the reset effect.
\<close>

theorem selectDiscipline_zoom:
  "reachable s \<Longrightarrow>
     zoomTransform (selectDiscipline d s) =
       (if d = selectedDiscipline (layout s) then zoomTransform s else zoomIdentity)"
  by (auto simp: selection_defs)

theorem selectDiscipline_zoom_witness:
  "reachable zoomed
   \<and> zoomTransform (selectDiscipline None zoomed) = zoomTransform zoomed
   \<and> zoomTransform (selectDiscipline (Some ''Judo'') zoomed) = zoomIdentity"
  using selectDiscipline_zoom [OF reachable_zoomed, of None]
    selectDiscipline_zoom [OF reachable_zoomed, of "Some ''Judo''"] reachable_zoomed
  by (simp add: zoomed_defs)

text \<open>
  C2 as stated fails: selecting the discipline Judo in the zoomed state changes the
  transform (back to the identity).
\<close>

theorem selectDiscipline_resets_zoom_counterexample:
  "reachable zoomed
   \<and> zoomTransform (selectDiscipline (Some ''Judo'') zoomed) \<noteq> zoomTransform zoomed"
  using reachable_zoomed
  by (simp add: selection_defs zoomed_defs zoomIdentity_def)

text \<open>
  C9. In every reachable state (a country is always selected), \<open>selectDiscipline d\<close>
  leaves the selected country code and name unchanged and sets the discipline to \<open>d\<close>.
\<close>

theorem selectDiscipline_keeps_country:
  "reachable s \<Longrightarrow>
     selectedCountryCode (layout (selectDiscipline d s)) = selectedCountryCode (layout s)
   \<and> selectedCountryName (layout (selectDiscipline d s)) = selectedCountryName (layout s)
   \<and> selectedDiscipline (layout (selectDiscipline d s)) = d"
  by (simp add: selection_defs)

theorem selectDiscipline_keeps_country_witness:
  "reachable zoomed
   \<and> selectedCountryCode (layout (selectDiscipline (Some ''Judo'') zoomed)) = ''USA''
   \<and> selectedCountryName (layout (selectDiscipline (Some ''Judo'') zoomed)) = ''United States''
   \<and> selectedDiscipline (layout (selectDiscipline (Some ''Judo'') zoomed)) = Some ''Judo''"
  using selectDiscipline_keeps_country [OF reachable_zoomed, of "Some ''Judo''"] reachable_zoomed
  by (simp add: zoomed_defs)

section \<open>Properties of the library functions\<close>

lemma first_seen_snoc:
  "first_seen (xs @ [x]) = (if x \<in> set xs then first_seen xs else first_seen xs @ [x])"
  by (simp add: first_seen_def)

lemma set_first_seen: "set (first_seen xs) = set xs"
  by (simp add: first_seen_def)

lemma distinct_first_seen: "distinct (first_seen xs)"
  by (simp add: first_seen_def)


lemma group_push_known:
  "distinct ks \<Longrightarrow> k \<in> set ks \<Longrightarrow>
     group_push k v (map (\<lambda>j. (j, g j)) ks) =
     map (\<lambda>j. (j, if j = k then g j @ [v] else g j)) ks"
  by (induction ks) auto

lemma group_push_new:
  "k \<notin> set ks \<Longrightarrow>
     group_push k v (map (\<lambda>j. (j, g j)) ks) = map (\<lambda>j. (j, g j)) ks @ [(k, [v])]"
  by (induction ks) auto

text \<open>
  The groups of \<open>group_by\<close> are the distinct keys in first-encounter order, each with the
  values of that key in their order.
\<close>

lemma group_by_groups:
  "group_by keyof values =
     map (\<lambda>k. (k, filter (\<lambda>v. keyof v = k) values)) (first_seen (map keyof values))"
proof (induction "values" rule: rev_induct)
  case Nil
  then show ?case by (simp add: group_by_def first_seen_def)
next
  case (snoc v vs)
  let ?ks = "first_seen (map keyof vs)"
  have step: "group_by keyof (vs @ [v]) = group_push (keyof v) v (group_by keyof vs)"
    by (simp add: group_by_def)
  show ?case
  proof (cases "keyof v \<in> set (map keyof vs)")
    case True
    then have "keyof v \<in> set ?ks" by (simp add: set_first_seen)
    then have "group_push (keyof v) v (map (\<lambda>k. (k, filter (\<lambda>u. keyof u = k) vs)) ?ks) =
        map (\<lambda>k. (k, if k = keyof v then filter (\<lambda>u. keyof u = k) vs @ [v]
                      else filter (\<lambda>u. keyof u = k) vs)) ?ks"
      by (intro group_push_known distinct_first_seen)
    with True show ?thesis
      by (auto simp: step snoc.IH first_seen_snoc)
  next
    case False
    then have new: "keyof v \<notin> set ?ks" by (simp add: set_first_seen)
    have none: "filter (\<lambda>u. keyof u = keyof v) vs = []"
      using False by (auto simp: filter_empty_conv image_iff)
    have same: "map (\<lambda>k. (k, filter (\<lambda>u. keyof u = k) (vs @ [v]))) ?ks =
        map (\<lambda>k. (k, filter (\<lambda>u. keyof u = k) vs)) ?ks"
      using new by auto
    have lhs: "group_by keyof (vs @ [v]) =
        map (\<lambda>k. (k, filter (\<lambda>u. keyof u = k) vs)) ?ks @ [(keyof v, [v])]"
      by (simp only: step snoc.IH group_push_new [OF new])
    have fs: "first_seen (map keyof (vs @ [v])) = ?ks @ [keyof v]"
      using False by (simp add: first_seen_snoc)
    have rhs: "map (\<lambda>k. (k, filter (\<lambda>u. keyof u = k) (vs @ [v]))) (?ks @ [keyof v]) =
        map (\<lambda>k. (k, filter (\<lambda>u. keyof u = k) vs)) ?ks @ [(keyof v, [v])]"
      using same none by simp
    show ?thesis by (simp only: lhs fs rhs)
  qed
qed

lemma rollups_groups:
  "rollups values reduce keyof =
     map (\<lambda>k. (k, reduce (filter (\<lambda>v. keyof v = k) values))) (first_seen (map keyof values))"
  by (simp add: rollups_def group_by_groups)

text \<open>With a comparator that orders by a key, \<open>js_sort\<close> is the stable sort by that key.\<close>

lemma js_insert_insort:
  "(\<And>a b. (compare a b \<le> 0) = (f a \<le> f b)) \<Longrightarrow> js_insert compare a bs = insort_key f a bs"
  by (induction bs) simp_all

lemma js_sort_sort_key:
  assumes "\<And>a b. (compare a b \<le> 0) = (f a \<le> f b)"
  shows "js_sort compare xs = sort_key f xs"
proof -
  have "js_insert compare = insort_key f"
    using js_insert_insort [of compare f, OF assms] by (intro ext)
  then show ?thesis by (simp add: js_sort_def sort_key_def)
qed

section \<open>Properties of the overview\<close>

lemma numeric_min_fold:
  "foldl (\<lambda>m n::int. case m of None \<Rightarrow> Some n
                 | Some least \<Rightarrow> if n < least then Some n else m) (Some a) ns
   = Some (fold min ns a)"
  by (induction ns arbitrary: a) (auto simp: min_def)

lemma numeric_max_fold:
  "foldl (\<lambda>m n::int. case m of None \<Rightarrow> Some n
                 | Some greatest \<Rightarrow> if greatest < n then Some n else m) (Some a) ns
   = Some (fold max ns a)"
  by (induction ns arbitrary: a) (auto simp: max_def)

lemma d3_min_skip:
  "foldl (\<lambda>m v. case row_total v of
                   NaN \<Rightarrow> m
                 | Num n \<Rightarrow> (case m of None \<Rightarrow> Some n
                            | Some least \<Rightarrow> if n < least then Some n else m)) m data
   = foldl (\<lambda>m n. case m of None \<Rightarrow> Some n
                 | Some least \<Rightarrow> if n < least then Some n else m) m (numericTotals data)"
  by (induction data arbitrary: m)
    (simp_all add: numericTotals_def map_filter_simps split: number.splits)

lemma d3_max_skip:
  "foldl (\<lambda>m v. case row_total v of
                   NaN \<Rightarrow> m
                 | Num n \<Rightarrow> (case m of None \<Rightarrow> Some n
                            | Some greatest \<Rightarrow> if greatest < n then Some n else m)) m data
   = foldl (\<lambda>m n. case m of None \<Rightarrow> Some n
                 | Some greatest \<Rightarrow> if greatest < n then Some n else m) m (numericTotals data)"
  by (induction data arbitrary: m)
    (simp_all add: numericTotals_def map_filter_simps split: number.splits)

lemma d3_min_numeric:
  "d3_min data row_total =
     (if numericTotals data = [] then None else Some (Min (set (numericTotals data))))"
proof (cases "numericTotals data")
  case Nil
  then show ?thesis by (simp add: d3_min_def d3_min_skip)
next
  case (Cons n ns)
  have "Min (set (n # ns)) = fold min ns n"
    by (rule Min.set_eq_fold)
  with Cons show ?thesis by (simp add: d3_min_def d3_min_skip numeric_min_fold)
qed

lemma d3_max_numeric:
  "d3_max data row_total =
     (if numericTotals data = [] then None else Some (Max (set (numericTotals data))))"
proof (cases "numericTotals data")
  case Nil
  then show ?thesis by (simp add: d3_max_def d3_max_skip)
next
  case (Cons n ns)
  have "Max (set (n # ns)) = fold max ns n"
    by (rule Max.set_eq_fold)
  with Cons show ?thesis by (simp add: d3_max_def d3_max_skip numeric_max_fold)
qed

lemma set_numericTotals: "set (numericTotals data) = {n. Num n \<in> row_total ` set data}"
  by (induction data)
    (auto simp: numericTotals_def map_filter_simps image_iff split: number.splits)

lemma numericTotals_empty:
  "(numericTotals data = []) = (\<forall>d \<in> set data. row_total d = NaN)"
  by (induction data)
    (auto simp: numericTotals_def map_filter_simps split: number.splits)

text \<open>
  C8 (amended). For every country-totals table, \<open>overviewColorDomain\<close> is the pair of the
  minimum and the maximum of the totals that are numbers, the rows whose total is \<^verbatim>\<open>NaN\<close>
  being skipped, and the pair of the defaults 0 and 1 when no total is a number. The domain
  of the rendered treemap is the same for any two selection states \<open>s\<close> and \<open>s'\<close> (same
  table, same size), and it is \<open>overviewColorDomain\<close> of the table whenever the table is
  not empty and the view is laid out.
\<close>

theorem overviewColorDomain_numeric:
  "overviewColorDomain data =
     (if \<forall>d \<in> set data. row_total d = NaN then (0, 1)
      else (Min {n. Num n \<in> row_total ` set data}, Max {n. Num n \<in> row_total ` set data}))
   \<and> map_Svg colorDomain (overview data sz s) = map_Svg colorDomain (overview data sz s')
   \<and> (data \<noteq> [] \<and> width sz \<noteq> 0 \<and> height sz \<noteq> 0 \<longrightarrow>
        map_Svg colorDomain (overview data sz s) = Chart (overviewColorDomain data))"
  by (simp add: overviewColorDomain_def d3_min_numeric d3_max_numeric nullish_def
      numericTotals_empty set_numericTotals overview_def renderTreemap_def)

theorem overviewColorDomain_numeric_witness:
  "overviewColorDomain (exampleTotals @ unreadableTotals) = (64, 126)
   \<and> row_total ` set (exampleTotals @ unreadableTotals) = {Num 126, Num 64, NaN}
   \<and> map_Svg colorDomain (overview (exampleTotals @ unreadableTotals) exampleSize initialLayout)
        = Chart (64, 126)
   \<and> map_Svg colorDomain (overview (exampleTotals @ unreadableTotals) exampleSize
        (setSelectedDiscipline (Some ''Judo'')
          (handleSelectCountry ''FRA'' ''France'' initialLayout))) = Chart (64, 126)
   \<and> map_Svg strokes (renderTreemap (exampleTotals @ unreadableTotals) exampleSize ''USA'')
        \<noteq> map_Svg strokes (renderTreemap (exampleTotals @ unreadableTotals) exampleSize ''FRA'')"
proof -
  let ?data = "exampleTotals @ unreadableTotals"
  let ?s' = "setSelectedDiscipline (Some ''Judo'')
      (handleSelectCountry ''FRA'' ''France'' initialLayout)"
  have col: "row_total ` set ?data = {Num 126, Num 64, NaN}"
    by (auto simp: exampleTotals_def unreadableTotals_def)
  have nums: "{n. Num n \<in> row_total ` set ?data} = {126, 64}"
    unfolding col by auto
  have some: "\<not> (\<forall>d \<in> set ?data. row_total d = NaN)"
    by (simp add: exampleTotals_def)
  have ne: "?data \<noteq> [] \<and> width exampleSize \<noteq> 0 \<and> height exampleSize \<noteq> 0"
    by (simp add: exampleTotals_def exampleSize_def)
  have st: "map_Svg strokes (renderTreemap ?data exampleSize ''USA'')
        \<noteq> map_Svg strokes (renderTreemap ?data exampleSize ''FRA'')"
    by (simp add: exampleTotals_def unreadableTotals_def exampleSize_def renderTreemap_def
        js_sort_def orZero_def)
  note t = overviewColorDomain_numeric [of ?data exampleSize initialLayout ?s']
  from t some have d: "overviewColorDomain ?data = (64, 126)"
    unfolding nums by simp
  from t ne have a: "map_Svg colorDomain (overview ?data exampleSize initialLayout)
      = Chart (64, 126)"
    unfolding d by blast
  from t have "map_Svg colorDomain (overview ?data exampleSize initialLayout)
      = map_Svg colorDomain (overview ?data exampleSize ?s')"
    by blast
  with a have b: "map_Svg colorDomain (overview ?data exampleSize ?s') = Chart (64, 126)"
    by simp
  from d col a b st show ?thesis
    by blast
qed

text \<open>
  C8 as stated fails: for the non-empty table whose only total is \<^verbatim>\<open>NaN\<close> the domain is
  the pair of the defaults, and neither 0 nor 1 is a total of the table.
\<close>

theorem overviewColorDomain_defaults_counterexample:
  "unreadableTotals \<noteq> []
   \<and> overviewColorDomain unreadableTotals = (0, 1)
   \<and> Num 0 \<notin> row_total ` set unreadableTotals
   \<and> Num 1 \<notin> row_total ` set unreadableTotals"
  by (simp add: unreadableTotals_def overviewColorDomain_def d3_min_def d3_max_def nullish_def)

section \<open>Properties of the detail view\<close>

lemma byDiscipline_counts: "byDiscipline data c = disciplineCounts data c"
  by (simp add: byDiscipline_def disciplineCounts_def rollups_groups filtered_def conj_commute)

lemma ranked_sort_key:
  "ranked data c = sort_key (\<lambda>g. - int (snd g)) (byDiscipline data c)"
  unfolding ranked_def by (rule js_sort_sort_key) auto

lemma distinct_fst_byDiscipline: "distinct (map fst (byDiscipline data c))"
  by (simp add: byDiscipline_counts disciplineCounts_def comp_def distinct_first_seen)

lemma ranked_sorted: "sorted_wrt (\<lambda>a b. snd b \<le> snd a) (ranked data c)"
proof -
  have "sorted (map (\<lambda>g. - int (snd g)) (ranked data c))"
    by (simp add: ranked_sort_key)
  then show ?thesis
    by (simp add: sorted_map)
qed

lemma ranked_stable:
  "filter (\<lambda>g. snd g = n) (ranked data c) = filter (\<lambda>g. snd g = n) (byDiscipline data c)"
proof -
  have "filter (\<lambda>g. - int (snd g) = - int n) (sort_key (\<lambda>g. - int (snd g)) (byDiscipline data c))
      = filter (\<lambda>g. - int (snd g) = - int n) (byDiscipline data c)"
    by (rule sort_key_stable)
  then show ?thesis by (simp add: ranked_sort_key)
qed

lemma set_ranked: "set (ranked data c) = set (byDiscipline data c)"
  by (simp add: ranked_sort_key)


lemma distinct_ranked: "distinct (ranked data c)"
  using distinct_fst_byDiscipline [of data c]
  by (simp add: ranked_sort_key distinct_map)

lemma distinct_fst_ranked: "distinct (map fst (ranked data c))"
proof -
  have "inj_on fst (set (byDiscipline data c))"
    using distinct_fst_byDiscipline [of data c] by (simp add: distinct_map)
  then show ?thesis
    using distinct_ranked [of data c] by (simp add: distinct_map set_ranked)
qed

lemma example_top: "topDisciplines exampleMedals ''USA'' = [''Swimming'', ''Athletics'']"
  by (simp add: topDisciplines_def ranked_def byDiscipline_def rollups_def group_by_def
      filtered_def js_sort_def exampleMedals_def)

lemma mixed_top:
  "topDisciplines mixedMedals ''USA'' = [''Swimming'', ''Athletics'', ''Fencing'']"
  "topDisciplines mixedMedals ''FRA'' = [''Judo'']"
  by (simp_all add: topDisciplines_def ranked_def byDiscipline_def rollups_def group_by_def
      filtered_def js_sort_def mixedMedals_def exampleMedals_def)

text \<open>
  C4. For every list of medal rows and every country code: \<open>byDiscipline\<close> holds the
  disciplines of the rows of \<open>data\<close> with that country code, in first-encounter order, each
  with the number of rows of \<open>data\<close> of that country and discipline; \<open>ranked\<close> is a
  rearrangement of it (each discipline once) in descending order of count, in which the
  disciplines of one count keep their first-encounter order; \<open>topDisciplines\<close> is the first
  12 disciplines of \<open>ranked\<close>. For the three example rows of the USA it is Swimming,
  Athletics; with rows of France among them the USA's list has no Judo, and Athletics
  stays in front of Fencing, of the same count and met later.
\<close>

theorem topDisciplines_ranking:
  "byDiscipline data c = disciplineCounts data c
   \<and> set (ranked data c) = set (byDiscipline data c)
   \<and> distinct (map fst (ranked data c))
   \<and> sorted_wrt (\<lambda>a b. snd b \<le> snd a) (ranked data c)
   \<and> (\<forall>n. filter (\<lambda>g. snd g = n) (ranked data c) = filter (\<lambda>g. snd g = n) (byDiscipline data c))
   \<and> topDisciplines data c = take 12 (map fst (ranked data c))
   \<and> topDisciplines exampleMedals ''USA'' = [''Swimming'', ''Athletics'']
   \<and> topDisciplines mixedMedals ''USA'' = [''Swimming'', ''Athletics'', ''Fencing'']
   \<and> topDisciplines mixedMedals ''FRA'' = [''Judo'']"
proof (intro conjI allI)
  show "topDisciplines data c = take 12 (map fst (ranked data c))"
    by (simp add: topDisciplines_def take_map)
qed (rule byDiscipline_counts set_ranked distinct_fst_ranked ranked_sorted ranked_stable
    example_top mixed_top)+

lemma fst_disciplineCounts:
  "map fst (disciplineCounts data c) =
     first_seen (map discipline [d \<leftarrow> data. country_code d = c])"
  by (simp add: disciplineCounts_def comp_def)


lemma fst_set_ranked:
  "fst ` set (ranked data c) = discipline ` set [d \<leftarrow> data. country_code d = c]"
proof -
  have "fst ` set (ranked data c) = set (map fst (disciplineCounts data c))"
    by (simp add: set_ranked byDiscipline_counts)
  also have "\<dots> = set (map discipline [d \<leftarrow> data. country_code d = c])"
    by (simp only: fst_disciplineCounts set_first_seen)
  finally show ?thesis by simp
qed


lemma set_topDisciplines:
  "set (topDisciplines data c) \<subseteq> discipline ` set [d \<leftarrow> data. country_code d = c]"
proof -
  have "set (topDisciplines data c) \<subseteq> fst ` set (ranked data c)"
    unfolding topDisciplines_def by (auto dest: in_set_takeD)
  then show ?thesis by (simp only: fst_set_ranked)
qed





lemma cells_count:
  "cell \<in> set (cells data c) \<Longrightarrow>
     cell_count cell =
       length (filter (\<lambda>d. country_code d = c \<and> discipline d = cell_discipline cell
                            \<and> medal_type d = medalType cell) data)"
  by (auto simp: cells_def filtered_def conj_commute conj_left_commute)



lemma loadHeatmap_filter:
  "loadHeatmap rows =
     map heatmapRow (filter (\<lambda>d. orEmpty (d ''discipline'') \<noteq> []
                               \<and> orEmpty (d ''country_code'') \<noteq> []) rows)"
  by (simp add: loadHeatmap_def filter_map comp_def heatmapRow_def)

lemma topDisciplines_nonempty_names:
  "disc \<in> set (topDisciplines (loadHeatmap rows) c) \<Longrightarrow> disc \<noteq> []"
  using set_topDisciplines [where data = "loadHeatmap rows" and c = c]
  by (auto simp: loadHeatmap_def)

lemma cells_discipline:
  "cell \<in> set (cells data c) \<Longrightarrow> cell_discipline cell \<in> set (topDisciplines data c)"
  by (auto simp: cells_def)

lemma loadHeatmap_drops:
  "orEmpty (r ''discipline'') = [] \<Longrightarrow> loadHeatmap (pre @ r # post) = loadHeatmap (pre @ post)"
  by (simp add: loadHeatmap_filter)

lemma loadHeatmap_retained:
  assumes "orEmpty (r ''discipline'') \<noteq> []" and "orEmpty (r ''country_code'') \<noteq> []"
  shows "heatmapRow r \<in> set (loadHeatmap (pre @ r # post))"
  using assms by (simp add: loadHeatmap_filter)

lemma cells_contribution:
  assumes row: "d \<in> set data" "country_code d = c"
    and cell: "cell \<in> set (cells data c)" "cell_discipline cell = discipline d"
      "medalType cell = medal_type d"
  shows "0 < cell_count cell"
proof -
  have "d \<in> set (filter (\<lambda>d. country_code d = c \<and> discipline d = cell_discipline cell
                              \<and> medal_type d = medalType cell) data)"
    using row cell by simp
  then have "0 < length (filter (\<lambda>d. country_code d = c \<and> discipline d = cell_discipline cell
                              \<and> medal_type d = medalType cell) data)"
    by (metis length_pos_if_in_set)
  then show ?thesis by (simp add: cells_count [OF cell(1)])
qed

text \<open>
  C10. The heatmap's loaded rows are exactly the CSV rows with a non-empty discipline and a
  non-empty country code (the date column is not read). No discipline of \<open>topDisciplines\<close>
  and of a cell is empty, and a row with an empty discipline can be left out of the CSV
  without changing the loaded rows. A row with an empty \<open>medal_date\<close> and non-empty
  discipline and country code is among the loaded rows, and the cell of its discipline and
  medal type, if in the matrix of its country, has a positive count.
\<close>

theorem loadHeatmap_keeps:
  "loadHeatmap rows =
     map heatmapRow (filter (\<lambda>d. orEmpty (d ''discipline'') \<noteq> []
                               \<and> orEmpty (d ''country_code'') \<noteq> []) rows)
   \<and> [] \<notin> set (topDisciplines (loadHeatmap rows) c)
   \<and> (\<forall>cell \<in> set (cells (loadHeatmap rows) c). cell_discipline cell \<noteq> [])
   \<and> (orEmpty (r ''discipline'') = [] \<longrightarrow>
        loadHeatmap (pre @ r # post) = loadHeatmap (pre @ post))
   \<and> (r ''medal_date'' = Some [] \<and> orEmpty (r ''discipline'') \<noteq> []
        \<and> orEmpty (r ''country_code'') \<noteq> [] \<longrightarrow>
        heatmapRow r \<in> set (loadHeatmap (pre @ r # post))
        \<and> (\<forall>cell \<in> set (cells (loadHeatmap (pre @ r # post)) (orEmpty (r ''country_code''))).
              cell_discipline cell = orEmpty (r ''discipline'')
              \<and> medalType cell = orEmpty (r ''medal_type'') \<longrightarrow> 0 < cell_count cell))"
proof (intro conjI impI ballI)
  show "loadHeatmap rows =
     map heatmapRow (filter (\<lambda>d. orEmpty (d ''discipline'') \<noteq> []
                               \<and> orEmpty (d ''country_code'') \<noteq> []) rows)"
    by (rule loadHeatmap_filter)
  show "[] \<notin> set (topDisciplines (loadHeatmap rows) c)"
    using topDisciplines_nonempty_names by blast
  show "cell_discipline cell \<noteq> []" if "cell \<in> set (cells (loadHeatmap rows) c)" for cell
    using that cells_discipline topDisciplines_nonempty_names by blast
  show "loadHeatmap (pre @ r # post) = loadHeatmap (pre @ post)"
    if "orEmpty (r ''discipline'') = []"
    using that by (rule loadHeatmap_drops)
next
  assume a: "r ''medal_date'' = Some [] \<and> orEmpty (r ''discipline'') \<noteq> []
        \<and> orEmpty (r ''country_code'') \<noteq> []"
  then show kept: "heatmapRow r \<in> set (loadHeatmap (pre @ r # post))"
    by (simp add: loadHeatmap_retained)
  fix cell
  assume "cell \<in> set (cells (loadHeatmap (pre @ r # post)) (orEmpty (r ''country_code'')))"
    and "cell_discipline cell = orEmpty (r ''discipline'') \<and> medalType cell = orEmpty (r ''medal_type'')"
  then show "0 < cell_count cell"
    using cells_contribution [OF kept, of "orEmpty (r ''country_code'')" cell]
    by (simp add: heatmapRow_def)
qed

theorem loadHeatmap_keeps_witness:
  "csvRow ''Gold Medal'' [] ''USA'' ''Swimming'' ''medal_date'' = Some []
   \<and> loadHeatmap [csvRow ''Gold Medal'' [] ''USA'' ''Swimming'',
                   csvRow ''Silver Medal'' ''2024-07-28'' ''USA'' []]
       = [\<lparr>medal_type = ''Gold Medal'', discipline = ''Swimming'', country_code = ''USA''\<rparr>]
   \<and> cells (loadHeatmap [csvRow ''Gold Medal'' [] ''USA'' ''Swimming'',
                          csvRow ''Silver Medal'' ''2024-07-28'' ''USA'' []]) ''USA''
       = [\<lparr>cell_discipline = ''Swimming'', medalType = ''Gold Medal'', cell_count = 1\<rparr>,
          \<lparr>cell_discipline = ''Swimming'', medalType = ''Silver Medal'', cell_count = 0\<rparr>,
          \<lparr>cell_discipline = ''Swimming'', medalType = ''Bronze Medal'', cell_count = 0\<rparr>]"
proof -
  let ?r = "csvRow ''Gold Medal'' [] ''USA'' ''Swimming''"
  let ?e = "csvRow ''Silver Medal'' ''2024-07-28'' ''USA'' []"
  have d: "?r ''medal_date'' = Some []"
    by (simp add: csvRow_def)
  note t = loadHeatmap_keeps [of "[?r, ?e]" "''USA''" ?r "[]" "[?e]"]
  have l: "loadHeatmap [?r, ?e] =
      [\<lparr>medal_type = ''Gold Medal'', discipline = ''Swimming'', country_code = ''USA''\<rparr>]"
    using t by (simp add: csvRow_def heatmapRow_def orEmpty_def)
  have "cells (loadHeatmap [?r, ?e]) ''USA''
       = [\<lparr>cell_discipline = ''Swimming'', medalType = ''Gold Medal'', cell_count = 1\<rparr>,
          \<lparr>cell_discipline = ''Swimming'', medalType = ''Silver Medal'', cell_count = 0\<rparr>,
          \<lparr>cell_discipline = ''Swimming'', medalType = ''Bronze Medal'', cell_count = 0\<rparr>]"
    unfolding l
    by (simp add: cells_def topDisciplines_def ranked_def byDiscipline_def rollups_def
        group_by_def filtered_def js_sort_def medalTypes_def)
  with d l show ?thesis by simp
qed

section \<open>Properties of the timeline\<close>

lemma timelineFiltered_filter:
  "timelineFiltered data c disc =
     filter (\<lambda>d. country_code d = c \<and> (truthy disc \<longrightarrow> Some (discipline d) = disc)) data"
  by (simp add: timelineFiltered_def filtered_def conj_commute)

lemma medalCounts_filter:
  "medalCounts (filter (\<lambda>d. medal_date d = s) rows) =
     (dateCount rows s ''Gold Medal'', dateCount rows s ''Silver Medal'',
      dateCount rows s ''Bronze Medal'')"
  by (simp add: medalCounts_def dateCount_def conj_commute)

lemma grouped_dates:
  "grouped data c disc =
     map (\<lambda>s. (s, dateCount (timelineFiltered data c disc) s ''Gold Medal'',
                  dateCount (timelineFiltered data c disc) s ''Silver Medal'',
                  dateCount (timelineFiltered data c disc) s ''Bronze Medal''))
       (first_seen (map medal_date (timelineFiltered data c disc)))"
  by (simp add: grouped_def rollups_groups medalCounts_filter)

lemma toMedalByDate_entry:
  "toMedalByDate pd (s, dateCount rows s ''Gold Medal'', dateCount rows s ''Silver Medal'',
      dateCount rows s ''Bronze Medal'') = map_option (dateEntry rows s) (pd s)"
  by (simp add: toMedalByDate_def dateEntry_def split: option.splits)

lemma map_filter_grouped:
  "List.map_filter (toMedalByDate pd) (grouped data c disc) =
     parsedEntries pd (timelineFiltered data c disc)"
  by (auto simp: grouped_dates map_filter_def filter_map comp_def toMedalByDate_entry
      parsedEntries_def option.map_sel)

lemma seriesData_sort_key:
  "seriesData pd data c disc = sort_key date (parsedEntries pd (timelineFiltered data c disc))"
  unfolding seriesData_def map_filter_grouped by (rule js_sort_sort_key) auto

lemma set_parsedEntries:
  "set (parsedEntries pd rows) =
     {dateEntry rows s t | s t. s \<in> medal_date ` set rows \<and> pd s = Some t}"
proof -
  have "set (parsedEntries pd rows) =
      (\<lambda>s. dateEntry rows s (the (pd s))) ` {s \<in> medal_date ` set rows. pd s \<noteq> None}"
    by (auto simp: parsedEntries_def set_first_seen)
  also have "\<dots> = {dateEntry rows s t | s t. s \<in> medal_date ` set rows \<and> pd s = Some t}"
    by (rule set_eqI) (auto simp: image_iff, metis option.sel)
  finally show ?thesis .
qed

lemma length_parsedEntries:
  "length (parsedEntries pd rows) = card {s \<in> medal_date ` set rows. pd s \<noteq> None}"
proof -
  have "distinct (filter (\<lambda>s. pd s \<noteq> None) (first_seen (map medal_date rows)))"
    by (simp add: distinct_first_seen)
  then have "length (filter (\<lambda>s. pd s \<noteq> None) (first_seen (map medal_date rows))) =
      card (set (filter (\<lambda>s. pd s \<noteq> None) (first_seen (map medal_date rows))))"
    by (simp only: distinct_card)
  also have "set (filter (\<lambda>s. pd s \<noteq> None) (first_seen (map medal_date rows))) =
      {s \<in> medal_date ` set rows. pd s \<noteq> None}"
    by (auto simp: set_first_seen)
  finally show ?thesis by (simp add: parsedEntries_def)
qed

lemma total_parsedEntries:
  "e \<in> set (parsedEntries pd rows) \<Longrightarrow> total e = gold e + silver e + bronze e"
  by (auto simp: parsedEntries_def dateEntry_def)

lemma dates_parsedEntries:
  "map date (parsedEntries pd rows) =
     map (\<lambda>s. the (pd s)) (filter (\<lambda>s. pd s \<noteq> None) (first_seen (map medal_date rows)))"
  by (simp add: parsedEntries_def dateEntry_def comp_def)

lemma distinct_dates_parsedEntries:
  assumes "inj_on pd {s \<in> medal_date ` set rows. pd s \<noteq> None}"
  shows "distinct (map date (parsedEntries pd rows))"
proof -
  let ?ks = "filter (\<lambda>s. pd s \<noteq> None) (first_seen (map medal_date rows))"
  have set_ks: "set ?ks = {s \<in> medal_date ` set rows. pd s \<noteq> None}"
    by (auto simp: set_first_seen)
  have "inj_on (\<lambda>s. the (pd s)) (set ?ks)"
  proof (rule inj_onI)
    fix a b
    assume a: "a \<in> set ?ks" and b: "b \<in> set ?ks" and eq: "the (pd a) = the (pd b)"
    from a b have "pd a \<noteq> None" "pd b \<noteq> None" by simp_all
    with eq have "pd a = pd b" by (auto simp: option.expand)
    with a b show "a = b" using assms unfolding set_ks by (auto dest: inj_onD)
  qed
  moreover have "distinct ?ks" by (simp add: distinct_first_seen)
  ultimately show ?thesis by (simp only: dates_parsedEntries distinct_map)
qed

lemma distinct_map_sort_key:
  "distinct (map f (sort_key g xs)) = distinct (map f xs)"
  by (simp add: distinct_map)

text \<open>
  C3 (amended). For every list of medal rows, country code, optional discipline and date
  parser: the rows used are those of the country, and of the discipline when it is neither
  null nor the empty string; the series has exactly one entry per distinct date string of
  these rows that parses, holding the parsed date, the numbers of Gold, Silver and Bronze
  rows of that date string and their sum as total; entries of date strings that fail to
  parse are absent; the series is sorted ascending by date; and its dates are pairwise
  distinct when no two of the parsing date strings have the same parsed date.
\<close>

theorem seriesData_entries:
  assumes "rows = timelineFiltered data c disc"
  shows
    "rows = filter (\<lambda>d. country_code d = c \<and> (truthy disc \<longrightarrow> Some (discipline d) = disc)) data
   \<and> set (seriesData pd data c disc) =
       {dateEntry rows s t | s t. s \<in> medal_date ` set rows \<and> pd s = Some t}
   \<and> length (seriesData pd data c disc) = card {s \<in> medal_date ` set rows. pd s \<noteq> None}
   \<and> (\<forall>e \<in> set (seriesData pd data c disc). total e = gold e + silver e + bronze e)
   \<and> sorted (map date (seriesData pd data c disc))
   \<and> (inj_on pd {s \<in> medal_date ` set rows. pd s \<noteq> None} \<longrightarrow>
        distinct (map date (seriesData pd data c disc)))"
  unfolding assms seriesData_sort_key
  by (simp add: timelineFiltered_filter [symmetric] set_parsedEntries length_parsedEntries
      total_parsedEntries distinct_map_sort_key distinct_dates_parsedEntries)

lemma example_series:
  "seriesData timeParse_Ymd exampleRows ''USA'' None =
     [\<lparr>date = 1722124800000, gold = 1, silver = 1, bronze = 0, total = 2\<rparr>,
      \<lparr>date = 1722211200000, gold = 1, silver = 0, bronze = 0, total = 1\<rparr>]"
  by code_simp

lemma loose_series:
  "seriesData timeParse_Ymd looseRows ''USA'' None =
     [\<lparr>date = 1722124800000, gold = 1, silver = 0, bronze = 0, total = 1\<rparr>,
      \<lparr>date = 1722124800000, gold = 0, silver = 1, bronze = 0, total = 1\<rparr>]"
  by code_simp

lemma empty_discipline_series:
  "seriesData timeParse_Ymd exampleRows ''USA'' (Some []) =
     [\<lparr>date = 1722124800000, gold = 1, silver = 1, bronze = 0, total = 2\<rparr>,
      \<lparr>date = 1722211200000, gold = 1, silver = 0, bronze = 0, total = 1\<rparr>]"
  by code_simp

lemma example_dates:
  "timeParse_Ymd ''2024-07-28'' = Some 1722124800000"
  "timeParse_Ymd ''2024-07-29'' = Some 1722211200000"
  by code_simp+

theorem seriesData_entries_witness:
  "seriesData timeParse_Ymd exampleRows ''USA'' None =
     [\<lparr>date = 1722124800000, gold = 1, silver = 1, bronze = 0, total = 2\<rparr>,
      \<lparr>date = 1722211200000, gold = 1, silver = 0, bronze = 0, total = 1\<rparr>]
   \<and> medal_date ` set (timelineFiltered exampleRows ''USA'' None) = {''2024-07-28'', ''2024-07-29''}
   \<and> inj_on timeParse_Ymd {''2024-07-28'', ''2024-07-29''}
   \<and> distinct (map date (seriesData timeParse_Ymd exampleRows ''USA'' None))
   \<and> length (seriesData timeParse_Ymd exampleRows ''USA'' None) = 2"
proof -
  let ?rows = "timelineFiltered exampleRows ''USA'' None"
  have dates: "medal_date ` set ?rows = {''2024-07-28'', ''2024-07-29''}"
    by (simp add: timelineFiltered_def filtered_def truthy_def exampleRows_def)
  have inj: "inj_on timeParse_Ymd {''2024-07-28'', ''2024-07-29''}"
    by (simp add: example_dates)
  then have "inj_on timeParse_Ymd {s \<in> medal_date ` set ?rows. timeParse_Ymd s \<noteq> None}"
    unfolding dates by (rule inj_on_subset) blast
  with seriesData_entries [of ?rows exampleRows "''USA''" None timeParse_Ymd]
  have "distinct (map date (seriesData timeParse_Ymd exampleRows ''USA'' None))"
    by blast
  with dates inj show ?thesis
    by (simp add: example_series)
qed

text \<open>
  C3 as stated fails: the date strings \<open>2024-07-28\<close> and \<open>2024-7-28\<close> both parse, to the
  same day, and give two entries of one date; and with the empty string as discipline no
  discipline filter is applied, although no row has the empty discipline.
\<close>

theorem seriesData_duplicate_dates_counterexample:
  "\<not> distinct (map date (seriesData timeParse_Ymd looseRows ''USA'' None))
   \<and> seriesData timeParse_Ymd exampleRows ''USA'' (Some []) =
       [\<lparr>date = 1722124800000, gold = 1, silver = 1, bronze = 0, total = 2\<rparr>,
        \<lparr>date = 1722211200000, gold = 1, silver = 0, bronze = 0, total = 1\<rparr>]
   \<and> filter (\<lambda>d. discipline d = []) exampleRows = []"
  by (simp add: loose_series empty_discipline_series) (simp add: exampleRows_def)

lemma seriesData_no_rows:
  "filter (\<lambda>d. country_code d = c) data = [] \<Longrightarrow> seriesData pd data c disc = []"
  by (simp add: seriesData_def grouped_def timelineFiltered_def filtered_def rollups_def
      group_by_def map_filter_simps js_sort_def)

lemma topDisciplines_no_rows:
  "filter (\<lambda>d. country_code d = c) data = [] \<Longrightarrow> topDisciplines data c = []"
  by (simp add: topDisciplines_def ranked_def byDiscipline_def filtered_def rollups_def
      group_by_def js_sort_def)

text \<open>
  C6 (amended). For every country code with no row in the loaded rows of the timeline and
  of the heatmap, \<open>seriesData\<close> and \<open>topDisciplines\<close> are empty; a view whose loaded rows
  are not empty and whose size is not zero shows its message (the timeline's says whether
  a discipline filter is active); a view with no loaded row at all, or of zero size,
  returns at its guard and draws nothing.
\<close>

theorem no_data_state:
  assumes "filter (\<lambda>d. country_code d = c) tdata = []"
    and "filter (\<lambda>d. country_code d = c) hdata = []"
  shows
    "seriesData pd tdata c disc = []
   \<and> topDisciplines hdata c = []
   \<and> renderTimeline pd tdata sz c disc =
       (if tdata = [] \<or> width sz = 0 \<or> height sz = 0 then Untouched
        else Message (if truthy disc then ''No medals in this discipline.''
                      else ''No medals recorded for this country.''))
   \<and> renderHeatmap hdata sz c =
       (if hdata = [] \<or> width sz = 0 \<or> height sz = 0 then Untouched
        else Message ''No discipline-level medals recorded for this country.'')"
  using seriesData_no_rows [OF assms(1), of pd disc] topDisciplines_no_rows [OF assms(2)]
  by (simp add: renderTimeline_def renderHeatmap_def cells_def)

theorem no_data_state_witness:
  "filter (\<lambda>d. country_code d = ''FRA'') exampleRows = []
   \<and> filter (\<lambda>d. country_code d = ''FRA'') exampleMedals = []
   \<and> seriesData timeParse_Ymd exampleRows ''FRA'' (Some ''Judo'') = []
   \<and> topDisciplines exampleMedals ''FRA'' = []
   \<and> renderTimeline timeParse_Ymd exampleRows exampleSize ''FRA'' (Some ''Judo'') =
       Message ''No medals in this discipline.''
   \<and> renderTimeline timeParse_Ymd exampleRows exampleSize ''FRA'' None =
       Message ''No medals recorded for this country.''
   \<and> renderHeatmap exampleMedals exampleSize ''FRA'' =
       Message ''No discipline-level medals recorded for this country.''"
proof -
  have t: "filter (\<lambda>d. country_code d = ''FRA'') exampleRows = []"
    by (simp add: exampleRows_def)
  have h: "filter (\<lambda>d. country_code d = ''FRA'') exampleMedals = []"
    by (simp add: exampleMedals_def)
  have ne: "exampleRows \<noteq> []" "exampleMedals \<noteq> []"
    by (simp_all add: exampleRows_def exampleMedals_def)
  show ?thesis
    using no_data_state [OF t h, of timeParse_Ymd "Some ''Judo''" exampleSize]
      no_data_state [OF t h, of timeParse_Ymd None exampleSize] t h ne
    by (simp add: exampleSize_def truthy_def)
qed

text \<open>
  C6 as stated fails: with an empty loaded dataset the USA has no matching row, and both
  views leave the \<open>svg\<close> untouched instead of showing a message.
\<close>

theorem no_data_empty_dataset_counterexample:
  "filter (\<lambda>d. country_code d = ''USA'') [] = []
   \<and> renderTimeline timeParse_Ymd [] exampleSize ''USA'' None = Untouched
   \<and> renderHeatmap [] exampleSize ''USA'' = Untouched"
  by (simp add: renderTimeline_def renderHeatmap_def)

section \<open>Properties of the hover readout\<close>

lemma below_iff_before:
  assumes "sorted (map f a)" and "i < length a"
  shows "(f (a ! i) < x) = (i < length (takeWhile (\<lambda>e. f e < x) a))"
proof
  assume "i < length (takeWhile (\<lambda>e. f e < x) a)"
  then show "f (a ! i) < x"
    by (metis nth_mem set_takeWhileD takeWhile_nth)
next
  let ?n = "length (takeWhile (\<lambda>e. f e < x) a)"
  assume below: "f (a ! i) < x"
  show "i < ?n"
  proof (rule ccontr)
    assume "\<not> i < ?n"
    then have le: "?n \<le> i" by simp
    with assms(2) have n: "?n < length a" by simp
    then have "\<not> f (a ! ?n) < x"
      by (rule nth_length_takeWhile)
    moreover have "f (a ! ?n) \<le> f (a ! i)"
      using assms le n sorted_nth_mono [of "map f a" ?n i] by simp
    ultimately show False using below by simp
  qed
qed

text \<open>
  On a list sorted by \<open>f\<close>, the binary search returns the number of leading elements
  below \<open>x\<close> whenever that number lies in the searched interval.
\<close>

lemma bisect_left_takeWhile:
  "sorted (map f a) \<Longrightarrow> lo \<le> length (takeWhile (\<lambda>e. f e < x) a) \<Longrightarrow>
         length (takeWhile (\<lambda>e. f e < x) a) \<le> hi \<Longrightarrow> hi \<le> length a \<Longrightarrow>
         bisect_left a f x lo hi = length (takeWhile (\<lambda>e. f e < x) a)"
proof (induction a f x lo hi rule: bisect_left.induct)
  case (1 a f x lo hi)
  let ?n = "length (takeWhile (\<lambda>e. f e < x) a)"
  let ?mid = "(lo + hi) div 2"
  note srt = "1.prems"(1)
  have loop: "bisect_left a f x lo hi =
      (if lo < hi
       then (if f (a ! ?mid) < x then bisect_left a f x (?mid + 1) hi
             else bisect_left a f x lo ?mid)
       else lo)"
    by (rule bisect_left.simps)
  show ?case
  proof (cases "lo < hi")
    case False
    then have "bisect_left a f x lo hi = lo" by (simp only: loop if_False)
    moreover from False "1.prems" have "lo = ?n" by simp
    ultimately show ?thesis by simp
  next
    case True
    then have mid: "lo \<le> ?mid" "?mid < hi" by simp_all
    with "1.prems" have len: "?mid < length a" by simp
    show ?thesis
    proof (cases "f (a ! ?mid) < x")
      case below: True
      then have "?mid < ?n"
        using below_iff_before [OF srt len, of x] by simp
      then have "bisect_left a f x (?mid + 1) hi = ?n"
        using "1.IH"(1) [OF True below] "1.prems" by simp
      moreover from True below have "bisect_left a f x lo hi = bisect_left a f x (?mid + 1) hi"
        by (simp only: loop if_True)
      ultimately show ?thesis by simp
    next
      case notbelow: False
      then have "?n \<le> ?mid"
        using below_iff_before [OF srt len, of x] by simp
      then have "bisect_left a f x lo ?mid = ?n"
        using "1.IH"(2) [OF True notbelow] "1.prems" mid by simp
      moreover from True notbelow have "bisect_left a f x lo hi = bisect_left a f x lo ?mid"
        by (simp only: loop if_True if_False)
      ultimately show ?thesis by simp
    qed
  qed
qed

lemma find_not_before:
  fixes series :: "MedalByDate list"
  shows "List.find (\<lambda>e. pointer \<le> date e) series =
     (case dropWhile (\<lambda>e. date e < pointer) series of [] \<Rightarrow> None | e # _ \<Rightarrow> Some e)"
proof -
  have "Not \<circ> (\<lambda>e. pointer \<le> date e) = (\<lambda>e::MedalByDate. date e < pointer)"
    by (auto simp: fun_eq_iff)
  then show ?thesis by (simp add: find_dropWhile)
qed

lemma nth_takeWhile_len:
  "length (takeWhile P xs) < length xs \<Longrightarrow>
     dropWhile P xs = xs ! length (takeWhile P xs) # drop (Suc (length (takeWhile P xs))) xs"
  by (simp add: dropWhile_eq_drop Cons_nth_drop_Suc)

lemma dropWhile_all:
  "length (takeWhile P xs) = length xs \<Longrightarrow> dropWhile P xs = []"
  by (simp add: dropWhile_eq_drop)

lemma bisect_left_all:
  assumes "sorted (map f a)"
  shows "bisect_left a f x 0 (length a) = length (takeWhile (\<lambda>e. f e < x) a)"
  by (rule bisect_left_takeWhile) (use assms length_takeWhile_le in simp_all)

lemma find_at_takeWhile:
  fixes series :: "MedalByDate list"
  assumes "length (takeWhile (\<lambda>e. date e < pointer) series) < length series"
  shows "List.find (\<lambda>e. pointer \<le> date e) series =
     Some (series ! length (takeWhile (\<lambda>e. date e < pointer) series))"
  by (simp only: find_not_before nth_takeWhile_len [OF assms] list.case)

lemma find_none_takeWhile:
  fixes series :: "MedalByDate list"
  assumes n: "length (takeWhile (\<lambda>e. date e < pointer) series) = length series"
  shows "List.find (\<lambda>e. pointer \<le> date e) series = None"
  by (simp only: find_not_before dropWhile_all [OF n] list.case)

text \<open>
  C7 (amended). For every non-empty series sorted by date and every date under the
  pointer, the readout is the first entry of the series whose date is not before the
  pointer's date, and the last entry when every date is before it; the index comes from the
  binary search \<open>bisect_left\<close>, clamped to the last index, and the entry carries its
  gold, silver, bronze and total counts.
\<close>

theorem hoverPoint_first_not_before:
  assumes "sorted (map date series)" and "series \<noteq> []"
  shows "hoverPoint series pointer =
     Some (case List.find (\<lambda>e. pointer \<le> date e) series of
             Some e \<Rightarrow> e | None \<Rightarrow> last series)"
proof -
  let ?n = "length (takeWhile (\<lambda>e. date e < pointer) series)"
  have le: "?n \<le> length series" by (rule length_takeWhile_le)
  have b: "bisect_left series date pointer 0 (length series) = ?n"
    using assms(1) by (rule bisect_left_all)
  have pos: "0 < length series" using assms(2) by simp
  have h: "hoverPoint series pointer =
      (if 0 \<le> min (int ?n) (int (length series) - 1)
          \<and> min (int ?n) (int (length series) - 1) < int (length series)
       then Some (series ! nat (min (int ?n) (int (length series) - 1))) else None)"
    by (simp only: hoverPoint_def b Let_def)
  show ?thesis
  proof (cases "?n < length series")
    case True
    have i: "min (int ?n) (int (length series) - 1) = int ?n"
      using True by simp
    show ?thesis
      using True by (simp only: h i find_at_takeWhile [OF True]) simp
  next
    case False
    with le have n: "?n = length series" by simp
    have i: "min (int ?n) (int (length series) - 1) = int (length series - 1)"
      unfolding n using pos by linarith
    have l: "series ! (length series - 1) = last series"
      using assms(2) by (simp add: last_conv_nth)
    show ?thesis
      using pos l by (simp only: h i find_none_takeWhile [OF n]) simp
  qed
qed

lemma august_sorted: "sorted (map date augustSeries)"
  by (simp add: augustSeries_def)

theorem hoverPoint_first_not_before_witness:
  "sorted (map date augustSeries) \<and> augustSeries \<noteq> []
   \<and> hoverPoint augustSeries 1722124800000 =
       Some \<lparr>date = 1722124800000, gold = 1, silver = 1, bronze = 0, total = 2\<rparr>
   \<and> hoverPoint augustSeries 1722124800001 =
       Some \<lparr>date = 1722211200000, gold = 1, silver = 0, bronze = 0, total = 1\<rparr>
   \<and> hoverPoint augustSeries 1722300000000 =
       Some \<lparr>date = 1722211200000, gold = 1, silver = 0, bronze = 0, total = 1\<rparr>"
proof -
  have ne: "augustSeries \<noteq> []"
    by (simp add: augustSeries_def)
  show ?thesis
    using hoverPoint_first_not_before [OF august_sorted ne, of 1722124800000]
      hoverPoint_first_not_before [OF august_sorted ne, of 1722124800001]
      hoverPoint_first_not_before [OF august_sorted ne, of 1722300000000] august_sorted ne
    by (simp add: augustSeries_def)
qed

text \<open>
  C7 as stated fails: one millisecond after midnight of 28 July the readout is the entry of
  29 July, although the entry of 28 July is nearer.
\<close>

theorem hoverPoint_not_nearest_counterexample:
  "sorted (map date augustSeries) \<and> augustSeries \<noteq> []
   \<and> hoverPoint augustSeries 1722124800001 = Some (augustSeries ! 1)
   \<and> \<bar>date (augustSeries ! 0) - 1722124800001\<bar> < \<bar>date (augustSeries ! 1) - 1722124800001\<bar>"
proof -
  have "hoverPoint augustSeries 1722124800001 = Some (augustSeries ! 1)"
    unfolding hoverPoint_def bisect_left_all [OF august_sorted]
    by (simp add: augustSeries_def)
  then show ?thesis
    using august_sorted by (simp add: augustSeries_def)
qed

end
